theory Spec2Isabelle
  imports Main
begin

section \<open>The restricted code executor of \<^verbatim>\<open>code_executor.py\<close>\<close>

text \<open>
  The module wraps four things it does not define itself: the restricted compiler
  (\<^verbatim>\<open>compile_restricted\<close>), the importer (\<^verbatim>\<open>__import__\<close>), the interpreter
  (\<^verbatim>\<open>exec\<close>) and the alarm signal of the process. Their answers are parameters of the
  model (the record \<open>host\<close>); what \<^verbatim>\<open>CodeExecutor\<close> does with the answers is
  translated line by line.
\<close>

subsection \<open>Exceptions and the outcome of a call\<close>

text \<open>
  The \<^verbatim>\<open>except\<close> clauses of the module test three classes: the module's own
  \<^verbatim>\<open>TimeoutError\<close> (lines 17-19, a subclass of \<^verbatim>\<open>Exception\<close> that shadows the
  built-in of the same name), \<^verbatim>\<open>ImportError\<close> and \<^verbatim>\<open>Exception\<close>. A value of
  type \<open>py_exception\<close> is an instance of \<^verbatim>\<open>Exception\<close>; \<open>exc_class\<close> says which of
  the tested classes it belongs to, \<open>exc_name\<close> is \<^verbatim>\<open>type(e).__name__\<close> and \<open>exc_str\<close>
  is \<^verbatim>\<open>str(e)\<close>.
\<close>

datatype exc_class = TimeoutErrorCls | ImportErrorCls | OtherExceptionCls

record py_exception =
  exc_class :: exc_class
  exc_name :: string
  exc_str :: string

definition is_TimeoutError :: "py_exception \<Rightarrow> bool" where
  "is_TimeoutError e = (exc_class e = TimeoutErrorCls)"

definition is_ImportError :: "py_exception \<Rightarrow> bool" where
  "is_ImportError e = (exc_class e = ImportErrorCls)"

text \<open>
  A call returns a value, raises an instance of \<^verbatim>\<open>Exception\<close>, or raises a
  system-exiting exception: an instance of \<^verbatim>\<open>BaseException\<close> outside
  \<^verbatim>\<open>Exception\<close> (\<^verbatim>\<open>KeyboardInterrupt\<close>, \<^verbatim>\<open>SystemExit\<close>), which no
  \<^verbatim>\<open>except Exception\<close> clause catches. \<open>Exits\<close> carries the name of its type.
\<close>

datatype 'a outcome = Returns 'a | Raises py_exception | Exits string

subsection \<open>Objects, namespaces and the result record\<close>

datatype py_object =
    Builtin string
  | Module string
  | Str string
  | Dict "(string \<times> py_object) list"

type_synonym namespace = "string \<rightharpoonup> py_object"

text \<open>What \<^verbatim>\<open>compile_restricted\<close> hands back (lines 48-57): \<^verbatim>\<open>None\<close>, an object
  that has an \<^verbatim>\<open>errors\<close> attribute, or a code object.\<close>

datatype code = Bytecode nat

datatype compiled = NoneObj | WithErrors "string list" | CodeObj code

record exec_result =
  success :: bool
  output_text :: string
  error :: string

record executor =
  timeout :: nat

subsection \<open>The process: the alarm, the handler of SIGALRM, the log\<close>

text \<open>
  What SIGALRM is bound to: the default action, ignoring, a callable of the host
  program, the bound method \<^verbatim>\<open>self._timeout_handler\<close>, or a handler that was not
  installed from Python. For the last one \<^verbatim>\<open>signal.signal\<close> returns \<^verbatim>\<open>None\<close> as
  the previous handler, and \<^verbatim>\<open>None\<close> is not a value it accepts as a handler.
\<close>

datatype handler = SIG_DFL | SIG_IGN | PyCallable string | TimeoutHandler | NotFromPython

datatype event = EvCompile | EvBuildEnv | EvSignal handler | EvAlarm nat | EvExec

text \<open>
  \<open>alarm\<close> is the number of seconds of the pending alarm, 0 when none is pending (the
  convention of \<^verbatim>\<open>signal.alarm\<close> itself). \<open>main_thread\<close> says whether the caller runs
  on the main thread: \<^verbatim>\<open>signal.signal\<close> raises \<^verbatim>\<open>ValueError\<close> elsewhere.
  \<open>trace\<close> lists the external calls that took effect so far, \<open>warnings\<close> the lines
  written by \<^verbatim>\<open>logger.warning\<close>.
\<close>

record process =
  alarm :: nat
  sigalrm :: handler
  main_thread :: bool
  trace :: "event list"
  warnings :: "string list"

text \<open>
  \<^verbatim>\<open>signal.alarm(n)\<close> converts its argument to a C \<^verbatim>\<open>int\<close>: from \<open>2 ^ 31\<close> on
  it raises \<^verbatim>\<open>OverflowError\<close> and sets nothing. Below that it replaces the pending
  alarm; 0 cancels it.
\<close>

definition alarm_overflow :: py_exception where
  "alarm_overflow =
     \<lparr>exc_class = OtherExceptionCls, exc_name = ''OverflowError'',
      exc_str = ''Python int too large to convert to C int''\<rparr>"

definition signal_alarm :: "nat \<Rightarrow> process \<Rightarrow> unit outcome \<times> process" where
  "signal_alarm n s =
     (if n < 2 ^ 31
      then (Returns (), s\<lparr>alarm := n, trace := trace s @ [EvAlarm n]\<rparr>)
      else (Raises alarm_overflow, s))"

definition not_main_thread :: py_exception where
  "not_main_thread =
     \<lparr>exc_class = OtherExceptionCls, exc_name = ''ValueError'',
      exc_str = ''signal only works in main thread of the main interpreter''\<rparr>"

definition handler_rejected :: py_exception where
  "handler_rejected =
     \<lparr>exc_class = OtherExceptionCls, exc_name = ''TypeError'',
      exc_str = ''signal handler must be signal.SIG_IGN, signal.SIG_DFL, or a callable object''\<rparr>"

text \<open>
  \<^verbatim>\<open>signal.signal(SIGALRM, h)\<close> checks the thread first and the handler second; then
  it installs \<open>h\<close> and returns the previous handler.
\<close>

definition signal_signal :: "handler \<Rightarrow> process \<Rightarrow> handler outcome \<times> process" where
  "signal_signal hdl s =
     (if \<not> main_thread s then (Raises not_main_thread, s)
      else if hdl = NotFromPython then (Raises handler_rejected, s)
      else (Returns (sigalrm s), s\<lparr>sigalrm := hdl, trace := trace s @ [EvSignal hdl]\<rparr>))"

subsection \<open>The host\<close>

text \<open>Lines 26-28: the handler raises \<^verbatim>\<open>TimeoutError("Code execution timed out")\<close>.\<close>

definition timeout_handler :: py_exception where
  "timeout_handler =
     \<lparr>exc_class = TimeoutErrorCls, exc_name = ''TimeoutError'',
      exc_str = ''Code execution timed out''\<rparr>"

text \<open>
  What a unit does when it is run. \<open>needs\<close> is the number of seconds it takes to end
  when nothing disturbs it, \<open>None\<close> when it never ends by itself; \<open>finish\<close> is how it
  then ends: the text written to the two sinks (stdout, stderr), or the exception that
  leaves it. \<open>interrupted\<close> is what happens once \<^verbatim>\<open>_timeout_handler\<close> has raised
  inside the running unit: the exception leaves the unit (\<open>Some (Raises
  timeout_handler)\<close>), or the unit catches it and ends some other way, or it catches it
  and goes on for ever (\<open>None\<close>; the alarm is spent by then).
\<close>

record behaviour =
  needs :: "nat option"
  finish :: "(string \<times> string) outcome"
  interrupted :: "(string \<times> string) outcome option"

text \<open>
  \<open>ALLOWED_MODULES\<close> is imported from \<^verbatim>\<open>security_config\<close>, which is not among the
  sources, so it is a parameter, in iteration order. \<open>unit_behaviour c g l\<close> is the
  behaviour of the code object \<open>c\<close> run with the globals \<open>g\<close> and the local scope
  \<open>l\<close>. What the unit binds in \<open>l\<close> is not part of it: \<^verbatim>\<open>safe_locals\<close> is a
  local variable of \<^verbatim>\<open>execute\<close>, never read after the call.
\<close>

record host =
  compile_restricted :: "string \<Rightarrow> compiled outcome"
  ALLOWED_MODULES :: "string list"
  import_module :: "string \<Rightarrow> py_object outcome"
  unit_behaviour :: "code \<Rightarrow> namespace \<Rightarrow> namespace \<Rightarrow> behaviour"

text \<open>The unit exceeds \<open>t\<close> seconds: it is still running when they have passed.\<close>

definition exceeds :: "behaviour \<Rightarrow> nat \<Rightarrow> bool" where
  "exceeds b t = (case needs b of None \<Rightarrow> True | Some d \<Rightarrow> t < d)"

text \<open>
  \<^verbatim>\<open>exec(c, g, l)\<close> on line 73, with \<^verbatim>\<open>_timeout_handler\<close> installed, an alarm of
  \<open>t\<close> seconds pending (0: none) and the two streams redirected. When the unit
  exceeds a pending alarm, the alarm goes off and the handler raises inside the unit.
  \<open>None\<close>: \<^verbatim>\<open>exec\<close> never returns control.
\<close>

definition exec_unit ::
  "host \<Rightarrow> code \<Rightarrow> namespace \<Rightarrow> namespace \<Rightarrow> nat \<Rightarrow> (string \<times> string) outcome option" where
  "exec_unit h c g l t =
     (let b = unit_behaviour h c g l in
      if 0 < t \<and> exceeds b t then interrupted b
      else (case needs b of None \<Rightarrow> None | Some d \<Rightarrow> Some (finish b)))"

subsection \<open>Text helpers\<close>

text \<open>\<^verbatim>\<open>'\n'.join(xs)\<close>\<close>

fun join_lines :: "string list \<Rightarrow> string" where
  "join_lines [] = []"
| "join_lines [x] = x"
| "join_lines (x # y # ys) = x @ [CHR 0x0A] @ join_lines (y # ys)"

text \<open>\<^verbatim>\<open>str(n)\<close> for a natural number: its decimal digits.\<close>

definition digit_char :: "nat \<Rightarrow> char" where
  "digit_char d = char_of (48 + d)"

function str_nat :: "nat \<Rightarrow> string" where
  "str_nat n = (if n < 10 then [digit_char n] else str_nat (n div 10) @ [digit_char (n mod 10)])"
  by pat_completeness auto
termination
  by (relation "measure id") auto

declare str_nat.simps [simp del]

subsection \<open>\<^verbatim>\<open>_create_safe_globals\<close> (lines 99-150)\<close>

definition safe_builtin_names :: "string list" where
  "safe_builtin_names =
     [''abs'', ''all'', ''any'', ''bin'', ''bool'', ''chr'', ''dict'', ''divmod'',
      ''enumerate'', ''filter'', ''float'', ''format'', ''hex'', ''int'', ''len'',
      ''list'', ''map'', ''max'', ''min'', ''oct'', ''ord'', ''pow'', ''print'',
      ''range'', ''reversed'', ''round'', ''set'', ''sorted'', ''str'', ''sum'',
      ''tuple'', ''type'', ''zip'']"

definition safe_builtins :: "(string \<times> py_object) list" where
  "safe_builtins = map (\<lambda>n. (n, Builtin n)) safe_builtin_names"

text \<open>
  The loop of lines 140-144. Only \<^verbatim>\<open>ImportError\<close> is caught: the module is left
  out and a warning is logged. Any other exception ends the loop and leaves the method.
\<close>

fun import_allowed ::
  "(string \<Rightarrow> py_object outcome) \<Rightarrow> string list \<Rightarrow> namespace \<Rightarrow> string list
     \<Rightarrow> namespace outcome \<times> string list" where
  "import_allowed imp [] mods log = (Returns mods, log)"
| "import_allowed imp (m # ms) mods log =
     (case imp m of
        Returns obj \<Rightarrow> import_allowed imp ms (mods(m \<mapsto> obj)) log
      | Raises e \<Rightarrow>
          if is_ImportError e
          then import_allowed imp ms mods (log @ [''Module '' @ m @ '' not available''])
          else (Raises e, log)
      | Exits k \<Rightarrow> (Exits k, log))"

text \<open>
  The method itself: the dictionary it returns, or the exception that leaves it, and
  the warnings it logged on the way.
\<close>

definition create_safe_globals :: "host \<Rightarrow> namespace outcome \<times> string list" where
  "create_safe_globals h =
     (case import_allowed (import_module h) (ALLOWED_MODULES h) Map.empty [] of
        (Returns safe_modules, log) \<Rightarrow>
          (Returns ([''__builtins__'' \<mapsto> Dict safe_builtins, ''__name__'' \<mapsto> Str ''__main__'']
                      ++ safe_modules), log)
      | (Raises e, log) \<Rightarrow> (Raises e, log)
      | (Exits k, log) \<Rightarrow> (Exits k, log))"

text \<open>
  How the unit resolves a name (\<^verbatim>\<open>exec\<close> with separate globals and locals): the
  local scope, then the globals, then the dictionary bound to \<^verbatim>\<open>__builtins__\<close> in
  the globals; otherwise \<^verbatim>\<open>NameError\<close>.
\<close>

definition name_error :: "string \<Rightarrow> py_exception" where
  "name_error x =
     \<lparr>exc_class = OtherExceptionCls, exc_name = ''NameError'',
      exc_str = ''name '' @ [CHR 0x27] @ x @ [CHR 0x27] @ '' is not defined''\<rparr>"

definition builtins_of :: "namespace \<Rightarrow> (string \<times> py_object) list" where
  "builtins_of g = (case g ''__builtins__'' of Some (Dict b) \<Rightarrow> b | _ \<Rightarrow> [])"

definition load_name :: "namespace \<Rightarrow> namespace \<Rightarrow> string \<Rightarrow> py_object outcome" where
  "load_name g l x =
     (case l x of
        Some v \<Rightarrow> Returns v
      | None \<Rightarrow>
          (case g x of
             Some v \<Rightarrow> Returns v
           | None \<Rightarrow>
               (case map_of (builtins_of g) x of
                  Some v \<Rightarrow> Returns v
                | None \<Rightarrow> Raises (name_error x))))"

subsection \<open>\<^verbatim>\<open>execute\<close> (lines 30-97)\<close>

text \<open>
  Lines 71-92, the inner \<^verbatim>\<open>try\<close>: run the unit, fill the result, and in the
  \<^verbatim>\<open>finally\<close> clause cancel the alarm and put the previous handler back. The result
  dictionary is updated in place, so it is returned together with the way the
  statement ends. \<open>None\<close>: \<^verbatim>\<open>exec\<close> never returns control. An exception raised
  inside \<^verbatim>\<open>finally\<close> replaces the way the statement would have ended.
\<close>

definition run_guarded ::
  "host \<Rightarrow> executor \<Rightarrow> code \<Rightarrow> namespace \<Rightarrow> namespace \<Rightarrow> handler \<Rightarrow> exec_result \<Rightarrow> process
     \<Rightarrow> ((exec_result \<times> unit outcome) \<times> process) option" where
  "run_guarded h ex c safe_globals safe_locals old_handler result s =
     (case exec_unit h c safe_globals safe_locals (alarm s) of
        None \<Rightarrow> None
      | Some oc \<Rightarrow>
          let s1 = s\<lparr>trace := trace s @ [EvExec]\<rparr>;
              ended =
                (case oc of
                   Returns (stdout_value, stderr_value) \<Rightarrow>
                     if stderr_value \<noteq> []
                     then (result\<lparr>error := stderr_value\<rparr>, Returns ())
                     else (result\<lparr>success := True, output_text := stdout_value\<rparr>, Returns ())
                 | Raises e \<Rightarrow>
                     if is_TimeoutError e
                     then (result\<lparr>error := ''Code execution timed out after ''
                                      @ str_nat (timeout ex) @ '' seconds''\<rparr>, Returns ())
                     else (result\<lparr>error := exc_name e @ '': '' @ exc_str e\<rparr>, Returns ())
                 | Exits k \<Rightarrow> (result, Exits k))
          in (case signal_alarm 0 s1 of
                (Raises e, s2) \<Rightarrow> Some ((fst ended, Raises e), s2)
              | (Exits k, s2) \<Rightarrow> Some ((fst ended, Exits k), s2)
              | (Returns _, s2) \<Rightarrow>
                  (case signal_signal old_handler s2 of
                     (Raises e, s3) \<Rightarrow> Some ((fst ended, Raises e), s3)
                   | (Exits k, s3) \<Rightarrow> Some ((fst ended, Exits k), s3)
                   | (Returns _, s3) \<Rightarrow> Some (ended, s3))))"

text \<open>
  Lines 47-92, the body of the outer \<^verbatim>\<open>try\<close>. The two early \<^verbatim>\<open>return\<close>
  statements and the fall-through to line 97 all end it normally. Lines 68 and 69 are
  outside the inner \<^verbatim>\<open>try\<close>: when line 69 raises, the handler installed by line 68
  stays.
\<close>

definition execute_body ::
  "host \<Rightarrow> executor \<Rightarrow> string \<Rightarrow> exec_result \<Rightarrow> process
     \<Rightarrow> ((exec_result \<times> unit outcome) \<times> process) option" where
  "execute_body h ex src result s =
     (let s1 = s\<lparr>trace := trace s @ [EvCompile]\<rparr> in
      case compile_restricted h src of
        Exits k \<Rightarrow> Some ((result, Exits k), s1)
      | Raises e \<Rightarrow> Some ((result, Raises e), s1)
      | Returns NoneObj \<Rightarrow>
          Some ((result\<lparr>error := ''Code compilation failed - invalid or restricted syntax''\<rparr>,
                 Returns ()), s1)
      | Returns (WithErrors errors) \<Rightarrow>
          Some ((result\<lparr>error := join_lines errors\<rparr>, Returns ()), s1)
      | Returns (CodeObj compiled_code) \<Rightarrow>
          (case create_safe_globals h of (built, log) \<Rightarrow>
           let s2 = s1\<lparr>trace := trace s1 @ [EvBuildEnv], warnings := warnings s1 @ log\<rparr> in
           (case built of
             Exits k \<Rightarrow> Some ((result, Exits k), s2)
           | Raises e \<Rightarrow> Some ((result, Raises e), s2)
           | Returns safe_globals \<Rightarrow>
               (case signal_signal TimeoutHandler s2 of
                  (Exits k, s3) \<Rightarrow> Some ((result, Exits k), s3)
                | (Raises e, s3) \<Rightarrow> Some ((result, Raises e), s3)
                | (Returns old_handler, s3) \<Rightarrow>
                    (case signal_alarm (timeout ex) s3 of
                       (Exits k, s4) \<Rightarrow> Some ((result, Exits k), s4)
                     | (Raises e, s4) \<Rightarrow> Some ((result, Raises e), s4)
                     | (Returns _, s4) \<Rightarrow>
                         run_guarded h ex compiled_code safe_globals Map.empty old_handler
                           result s4)))))"

text \<open>
  Lines 40-97. The outer \<^verbatim>\<open>except Exception\<close> writes the message of whatever
  instance of \<^verbatim>\<open>Exception\<close> left the body into the error field of the dictionary as
  it is by then; a system-exiting exception leaves \<^verbatim>\<open>execute\<close> itself.
\<close>

definition execute :: "host \<Rightarrow> executor \<Rightarrow> string \<Rightarrow> process \<Rightarrow> (exec_result outcome \<times> process) option" where
  "execute h ex src s =
     (case execute_body h ex src \<lparr>success = False, output_text = [], error = []\<rparr> s of
        None \<Rightarrow> None
      | Some ((result, Returns _), s') \<Rightarrow> Some (Returns result, s')
      | Some ((result, Raises e), s') \<Rightarrow>
          Some (Returns (result\<lparr>error := ''Compilation error: '' @ exc_str e\<rparr>), s')
      | Some ((result, Exits k), s') \<Rightarrow> Some (Exits k, s'))"

subsection \<open>A concrete host\<close>

text \<open>
  A small host on which the theorems below are instantiated. It compiles a handful of
  sources and offers the modules \<^verbatim>\<open>math\<close> (present) and \<^verbatim>\<open>numpy\<close> (absent).
  Its units: six that end at once, of which \<^verbatim>\<open>print(x)\<close> looks \<open>x\<close> up with
  \<open>load_name\<close>; an endless loop that the handler's exception leaves; an endless loop
  in a \<^verbatim>\<open>try\<close> with a bare \<^verbatim>\<open>except\<close> that catches the exception and then
  ends (\<^verbatim>\<open>absorb()\<close>); and one that catches it and loops on (\<^verbatim>\<open>cling()\<close>).
\<close>

definition default_executor :: executor where
  "default_executor = \<lparr>timeout = 10\<rparr>"

definition idle :: process where
  "idle = \<lparr>alarm = 0, sigalrm = SIG_DFL, main_thread = True, trace = [], warnings = []\<rparr>"

text \<open>A process whose handler of SIGALRM was installed by code that is not Python.\<close>

definition foreign :: process where
  "foreign =
     \<lparr>alarm = 0, sigalrm = NotFromPython, main_thread = True, trace = [], warnings = []\<rparr>"

definition syntax_error :: py_exception where
  "syntax_error =
     \<lparr>exc_class = OtherExceptionCls, exc_name = ''SyntaxError'', exc_str = ''invalid syntax''\<rparr>"

definition zero_division :: py_exception where
  "zero_division =
     \<lparr>exc_class = OtherExceptionCls, exc_name = ''ZeroDivisionError'',
      exc_str = ''division by zero''\<rparr>"

definition module_not_found :: py_exception where
  "module_not_found =
     \<lparr>exc_class = ImportErrorCls, exc_name = ''ModuleNotFoundError'',
      exc_str = ''No module named numpy''\<rparr>"

definition demo_compile :: "string \<Rightarrow> compiled outcome" where
  "demo_compile src =
     (if src = ''print(42)'' then Returns (CodeObj (Bytecode 0))
      else if src = ''1/0'' then Returns (CodeObj (Bytecode 7))
      else if src = ''while True: pass'' then Returns (CodeObj (Bytecode 2))
      else if src = ''x = 1'' then Returns (CodeObj (Bytecode 3))
      else if src = ''print(x)'' then Returns (CodeObj (Bytecode 4))
      else if src = ''warn()'' then Returns (CodeObj (Bytecode 5))
      else if src = ''wait()'' then Returns (CodeObj (Bytecode 6))
      else if src = ''absorb()'' then Returns (CodeObj (Bytecode 8))
      else if src = ''cling()'' then Returns (CodeObj (Bytecode 9))
      else if src = ''def'' then Raises syntax_error
      else if src = ''exec(1)'' then
        Returns (WithErrors [''Line 1: Exec calls are not allowed.'', ''Line 1: bad name''])
      else Returns NoneObj)"

definition demo_import :: "string \<Rightarrow> py_object outcome" where
  "demo_import m = (if m = ''math'' then Returns (Module ''math'') else Raises module_not_found)"

text \<open>A unit that ends at once, and a loop that only the alarm ends.\<close>

definition at_once :: "(string \<times> string) outcome \<Rightarrow> behaviour" where
  "at_once oc = \<lparr>needs = Some 0, finish = oc, interrupted = Some (Raises timeout_handler)\<rparr>"

definition endless :: "(string \<times> string) outcome option \<Rightarrow> behaviour" where
  "endless i = \<lparr>needs = None, finish = Returns ([], []), interrupted = i\<rparr>"

definition demo_behaviour :: "code \<Rightarrow> namespace \<Rightarrow> namespace \<Rightarrow> behaviour" where
  "demo_behaviour c g l =
     (case c of Bytecode n \<Rightarrow>
        if n = 0 then at_once (Returns (''42'' @ [CHR 0x0A], []))
        else if n = 7 then at_once (Raises zero_division)
        else if n = 2 then endless (Some (Raises timeout_handler))
        else if n = 3 then at_once (Returns ([], []))
        else if n = 4 then
          at_once (case load_name g l ''x'' of
                     Returns v \<Rightarrow> Returns (''1'' @ [CHR 0x0A], [])
                   | Raises e \<Rightarrow> Raises e
                   | Exits k \<Rightarrow> Exits k)
        else if n = 5 then at_once (Returns (''partial'', ''deprecated''))
        else if n = 8 then endless (Some (Returns ([], [])))
        else if n = 9 then endless None
        else at_once (Exits ''KeyboardInterrupt''))"

definition demo_host :: host where
  "demo_host =
     \<lparr>compile_restricted = demo_compile, ALLOWED_MODULES = [''math'', ''numpy''],
      import_module = demo_import, unit_behaviour = demo_behaviour\<rparr>"

text \<open>The same host with a module whose import fails with something else than
  \<^verbatim>\<open>ImportError\<close>.\<close>

definition plugin_host :: host where
  "plugin_host =
     demo_host\<lparr>ALLOWED_MODULES := [''math'', ''plugin''],
               import_module := (\<lambda>m. if m = ''math'' then Returns (Module ''math'')
                                      else Raises syntax_error)\<rparr>"

text \<open>A host that differs from \<open>demo_host\<close> only in what a unit does when it is
  started in a local scope that already binds \<open>x\<close>.\<close>

definition leaky_host :: host where
  "leaky_host =
     demo_host\<lparr>unit_behaviour :=
       (\<lambda>c g l. if l ''x'' = None then demo_behaviour c g l
                 else at_once (Returns (''leak'', [])))\<rparr>"

text \<open>An executor whose timeout does not fit a C \<^verbatim>\<open>int\<close>.\<close>

definition huge_executor :: executor where
  "huge_executor = \<lparr>timeout = 2 ^ 31\<rparr>"

text \<open>The environment that \<open>demo_host\<close> builds.\<close>

definition demo_env :: namespace where
  "demo_env =
     [''__builtins__'' \<mapsto> Dict safe_builtins, ''__name__'' \<mapsto> Str ''__main__'']
       ++ [''math'' \<mapsto> Module ''math'']"


section \<open>Properties\<close>

subsection \<open>What \<^verbatim>\<open>execute\<close> returns on each path\<close>

lemmas exec_defs = execute_def execute_body_def run_guarded_def signal_signal_def
  signal_alarm_def Let_def

lemma res_compile_exits:
  "compile_restricted h src = Exits k \<Longrightarrow> map_option fst (execute h ex src s) = Some (Exits k)"
  by (simp add: exec_defs)

lemma res_compile_raises:
  "compile_restricted h src = Raises e \<Longrightarrow>
   map_option fst (execute h ex src s) =
     Some (Returns \<lparr>success = False, output_text = [], error = ''Compilation error: '' @ exc_str e\<rparr>)"
  by (simp add: exec_defs)

lemma res_compile_none:
  "compile_restricted h src = Returns NoneObj \<Longrightarrow>
   map_option fst (execute h ex src s) =
     Some (Returns \<lparr>success = False, output_text = [],
                    error = ''Code compilation failed - invalid or restricted syntax''\<rparr>)"
  by (simp add: exec_defs)

lemma res_compile_errors:
  "compile_restricted h src = Returns (WithErrors es) \<Longrightarrow>
   map_option fst (execute h ex src s) =
     Some (Returns \<lparr>success = False, output_text = [], error = join_lines es\<rparr>)"
  by (simp add: exec_defs)

lemma res_env_exits:
  assumes "compile_restricted h src = Returns (CodeObj c)" "fst (create_safe_globals h) = Exits k"
  shows "map_option fst (execute h ex src s) = Some (Exits k)"
proof -
  obtain log where "create_safe_globals h = (Exits k, log)"
    using assms(2) by (cases "create_safe_globals h") simp
  with assms(1) show ?thesis by (simp add: exec_defs)
qed

lemma res_env_raises:
  assumes "compile_restricted h src = Returns (CodeObj c)" "fst (create_safe_globals h) = Raises e"
  shows "map_option fst (execute h ex src s) =
     Some (Returns \<lparr>success = False, output_text = [], error = ''Compilation error: '' @ exc_str e\<rparr>)"
proof -
  obtain log where "create_safe_globals h = (Raises e, log)"
    using assms(2) by (cases "create_safe_globals h") simp
  with assms(1) show ?thesis by (simp add: exec_defs)
qed

lemma res_off_main_thread:
  assumes "compile_restricted h src = Returns (CodeObj c)" "fst (create_safe_globals h) = Returns g"
    "\<not> main_thread s"
  shows "map_option fst (execute h ex src s) =
     Some (Returns \<lparr>success = False, output_text = [],
                    error = ''Compilation error: '' @ exc_str not_main_thread\<rparr>)"
proof -
  obtain log where "create_safe_globals h = (Returns g, log)"
    using assms(2) by (cases "create_safe_globals h") simp
  with assms(1,3) show ?thesis by (simp add: exec_defs)
qed

lemma res_alarm_overflow:
  assumes "compile_restricted h src = Returns (CodeObj c)" "fst (create_safe_globals h) = Returns g"
    "main_thread s" "\<not> timeout ex < 2 ^ 31"
  shows "map_option fst (execute h ex src s) =
     Some (Returns \<lparr>success = False, output_text = [],
                    error = ''Compilation error: '' @ exc_str alarm_overflow\<rparr>)"
proof -
  obtain log where "create_safe_globals h = (Returns g, log)"
    using assms(2) by (cases "create_safe_globals h") simp
  with assms(1,3,4) show ?thesis by (simp add: exec_defs)
qed

text \<open>The unit is run and the previous handler can be put back.\<close>

lemma res_run:
  assumes "compile_restricted h src = Returns (CodeObj c)" "fst (create_safe_globals h) = Returns g"
    "main_thread s" "timeout ex < 2 ^ 31" "sigalrm s \<noteq> NotFromPython"
  shows "map_option fst (execute h ex src s) =
     (case exec_unit h c g Map.empty (timeout ex) of
        None \<Rightarrow> None
      | Some (Returns (out, err)) \<Rightarrow>
          Some (Returns (if err \<noteq> [] then \<lparr>success = False, output_text = [], error = err\<rparr>
                         else \<lparr>success = True, output_text = out, error = []\<rparr>))
      | Some (Raises e) \<Rightarrow>
          Some (Returns \<lparr>success = False, output_text = [],
                  error = (if is_TimeoutError e
                           then ''Code execution timed out after '' @ str_nat (timeout ex) @ '' seconds''
                           else exc_name e @ '': '' @ exc_str e)\<rparr>)
      | Some (Exits k) \<Rightarrow> Some (Exits k))"
proof -
  obtain log where "create_safe_globals h = (Returns g, log)"
    using assms(2) by (cases "create_safe_globals h") simp
  with assms(1,3,4,5) show ?thesis
    by (simp add: exec_defs split: option.split outcome.split prod.split)
qed

text \<open>The unit is run and the previous handler cannot be put back: line 92 raises
  and line 95 overwrites the error text, whatever the run did.\<close>

lemma res_run_foreign:
  assumes "compile_restricted h src = Returns (CodeObj c)" "fst (create_safe_globals h) = Returns g"
    "main_thread s" "timeout ex < 2 ^ 31" "sigalrm s = NotFromPython"
  shows "map_option fst (execute h ex src s) =
     (case exec_unit h c g Map.empty (timeout ex) of
        None \<Rightarrow> None
      | Some (Returns (out, err)) \<Rightarrow>
          Some (Returns (if err \<noteq> []
                         then \<lparr>success = False, output_text = [],
                               error = ''Compilation error: '' @ exc_str handler_rejected\<rparr>
                         else \<lparr>success = True, output_text = out,
                               error = ''Compilation error: '' @ exc_str handler_rejected\<rparr>))
      | Some (Raises e) \<Rightarrow>
          Some (Returns \<lparr>success = False, output_text = [],
                  error = ''Compilation error: '' @ exc_str handler_rejected\<rparr>)
      | Some (Exits k) \<Rightarrow>
          Some (Returns \<lparr>success = False, output_text = [],
                  error = ''Compilation error: '' @ exc_str handler_rejected\<rparr>))"
proof -
  obtain log where "create_safe_globals h = (Returns g, log)"
    using assms(2) by (cases "create_safe_globals h") simp
  with assms(1,3,4,5) show ?thesis
    by (simp add: exec_defs split: option.split outcome.split prod.split)
qed

subsection \<open>The paths through \<^verbatim>\<open>execute\<close>\<close>

lemma path_cases:
  obtains (CompileExits) k where "compile_restricted h src = Exits k"
  | (CompileRaises) e where "compile_restricted h src = Raises e"
  | (CompileNone) "compile_restricted h src = Returns NoneObj"
  | (CompileErrors) es where "compile_restricted h src = Returns (WithErrors es)"
  | (EnvExits) c k where "compile_restricted h src = Returns (CodeObj c)"
      "fst (create_safe_globals h) = Exits k"
  | (EnvRaises) c e where "compile_restricted h src = Returns (CodeObj c)"
      "fst (create_safe_globals h) = Raises e"
  | (OffMain) c g where "compile_restricted h src = Returns (CodeObj c)"
      "fst (create_safe_globals h) = Returns g" "\<not> main_thread s"
  | (Overflow) c g where "compile_restricted h src = Returns (CodeObj c)"
      "fst (create_safe_globals h) = Returns g" "main_thread s" "\<not> timeout ex < 2 ^ 31"
  | (Run) c g where "compile_restricted h src = Returns (CodeObj c)"
      "fst (create_safe_globals h) = Returns g" "main_thread s" "timeout ex < 2 ^ 31"
      "sigalrm s \<noteq> NotFromPython"
  | (RunForeign) c g where "compile_restricted h src = Returns (CodeObj c)"
      "fst (create_safe_globals h) = Returns g" "main_thread s" "timeout ex < 2 ^ 31"
      "sigalrm s = NotFromPython"
proof (cases "compile_restricted h src")
  case (Returns x)
  show ?thesis
  proof (cases x)
    case NoneObj
    with Returns show ?thesis using CompileNone by simp
  next
    case (WithErrors es)
    with Returns show ?thesis using CompileErrors by simp
  next
    case (CodeObj c)
    with Returns have c: "compile_restricted h src = Returns (CodeObj c)"
      by simp
    show ?thesis
    proof (cases "fst (create_safe_globals h)")
      case (Returns g)
      show ?thesis
      proof (cases "main_thread s")
        case False
        with c Returns show ?thesis using OffMain by blast
      next
        case True
        show ?thesis
        proof (cases "timeout ex < 2 ^ 31")
          case False
          with c Returns True show ?thesis using Overflow by blast
        next
          case t: True
          with c Returns True show ?thesis using Run RunForeign
            by (cases "sigalrm s = NotFromPython") blast+
        qed
      qed
    next
      case (Raises e)
      with c show ?thesis using EnvRaises by blast
    next
      case (Exits k)
      with c show ?thesis using EnvExits by blast
    qed
  qed
next
  case (Raises e)
  then show ?thesis using CompileRaises by blast
next
  case (Exits k)
  then show ?thesis using CompileExits by blast
qed

lemmas res_no_run = res_compile_exits res_compile_raises res_compile_none res_compile_errors
  res_env_exits res_env_raises res_off_main_thread res_alarm_overflow

subsection \<open>The capability environment\<close>

lemma import_allowed_dom:
  "import_allowed imp ms acc lg = (Returns mods, lg') \<Longrightarrow>
   dom mods = dom acc \<union> {m \<in> set ms. \<exists>obj. imp m = Returns obj}"
proof (induction ms arbitrary: acc lg)
  case Nil
  then show ?case by simp
next
  case (Cons m ms)
  show ?case
  proof (cases "imp m")
    case (Returns obj)
    with Cons.prems have "import_allowed imp ms (acc(m \<mapsto> obj)) lg = (Returns mods, lg')"
      by simp
    then have "dom mods = dom (acc(m \<mapsto> obj)) \<union> {m \<in> set ms. \<exists>obj. imp m = Returns obj}"
      by (rule Cons.IH)
    with Returns show ?thesis by auto
  next
    case (Raises e)
    with Cons.prems have ie: "is_ImportError e"
      and "import_allowed imp ms acc (lg @ [''Module '' @ m @ '' not available'']) = (Returns mods, lg')"
      by (auto split: if_splits)
    from Cons.IH[OF this(2)] Raises show ?thesis by auto
  next
    case (Exits k)
    with Cons.prems show ?thesis by simp
  qed
qed

lemma import_allowed_returns_iff:
  "(\<exists>mods lg'. import_allowed imp ms acc lg = (Returns mods, lg')) \<longleftrightarrow>
   (\<forall>m\<in>set ms. (\<forall>e. imp m = Raises e \<longrightarrow> is_ImportError e) \<and> (\<forall>k. imp m \<noteq> Exits k))"
proof (induction ms arbitrary: acc lg)
  case Nil
  then show ?case by simp
next
  case (Cons m ms)
  show ?case
  proof (cases "imp m")
    case (Returns obj)
    have "(\<exists>mods lg'. import_allowed imp ms (acc(m \<mapsto> obj)) lg = (Returns mods, lg')) \<longleftrightarrow>
      (\<forall>m\<in>set ms. (\<forall>e. imp m = Raises e \<longrightarrow> is_ImportError e) \<and> (\<forall>k. imp m \<noteq> Exits k))"
      by (rule Cons.IH)
    with Returns show ?thesis by simp
  next
    case (Raises e)
    then show ?thesis
      using Cons.IH[of acc "lg @ [''Module '' @ m @ '' not available'']"] by simp
  next
    case (Exits k)
    then show ?thesis by simp
  qed
qed

lemma create_safe_globals_Returns:
  "fst (create_safe_globals h) = Returns g \<longleftrightarrow>
   (\<exists>mods lg. import_allowed (import_module h) (ALLOWED_MODULES h) Map.empty [] = (Returns mods, lg)
      \<and> g = [''__builtins__'' \<mapsto> Dict safe_builtins, ''__name__'' \<mapsto> Str ''__main__''] ++ mods)"
  by (cases "import_allowed (import_module h) (ALLOWED_MODULES h) Map.empty []")
     (auto simp: create_safe_globals_def split: outcome.splits)

lemma map_of_safe_builtins:
  "map_of safe_builtins x = (if x \<in> set safe_builtin_names then Some (Builtin x) else None)"
  by (simp add: safe_builtins_def map_of_map_restrict restrict_map_def)

lemma load_name_Returns:
  "(\<exists>v. load_name g l x = Returns v) \<longleftrightarrow>
   x \<in> dom l \<or> x \<in> dom g \<or> x \<in> dom (map_of (builtins_of g))"
  by (auto simp: load_name_def split: option.splits)

lemma resolvable_names:
  assumes nb: "''__builtins__'' \<notin> set (ALLOWED_MODULES h)"
    and cg: "fst (create_safe_globals h) = Returns g"
  shows "(\<exists>v. load_name g Map.empty x = Returns v) \<longleftrightarrow>
           x \<in> set safe_builtin_names \<or> x = ''__builtins__'' \<or> x = ''__name__'' \<or>
           (x \<in> set (ALLOWED_MODULES h) \<and> (\<exists>obj. import_module h x = Returns obj))"
proof -
  from cg obtain mods lg where
    imp: "import_allowed (import_module h) (ALLOWED_MODULES h) Map.empty [] = (Returns mods, lg)"
    and g: "g = [''__builtins__'' \<mapsto> Dict safe_builtins, ''__name__'' \<mapsto> Str ''__main__''] ++ mods"
    unfolding create_safe_globals_Returns by blast
  have dm: "dom mods = {m \<in> set (ALLOWED_MODULES h). \<exists>obj. import_module h m = Returns obj}"
    using import_allowed_dom[OF imp] by simp
  with nb have "''__builtins__'' \<notin> dom mods" by blast
  then have "mods ''__builtins__'' = None" by blast
  then have b: "builtins_of g = safe_builtins"
    by (simp add: builtins_of_def g map_add_def)
  have dg: "dom g = {''__builtins__'', ''__name__''} \<union> dom mods"
    by (auto simp: g)
  show ?thesis
    unfolding load_name_Returns b dg dm
    by (auto simp: map_of_safe_builtins dom_def)
qed

lemma unresolved_name:
  "\<not> (\<exists>v. load_name g l x = Returns v) \<Longrightarrow> load_name g l x = Raises (name_error x)"
  by (auto simp: load_name_def split: option.splits)

lemma demo_globals:
  "fst (create_safe_globals demo_host) =
     Returns ([''__builtins__'' \<mapsto> Dict safe_builtins, ''__name__'' \<mapsto> Str ''__main__'']
                ++ [''math'' \<mapsto> Module ''math''])"
  by (simp add: create_safe_globals_def demo_host_def demo_import_def module_not_found_def
      is_ImportError_def)

lemma plugin_globals: "fst (create_safe_globals plugin_host) = Raises syntax_error"
  by (simp add: create_safe_globals_def demo_host_def plugin_host_def syntax_error_def
      is_ImportError_def)

text \<open>
  C1 (as amended). When the name \<^verbatim>\<open>__builtins__\<close> is not itself an allowed module:
  \<^verbatim>\<open>_create_safe_globals\<close> returns an environment exactly when every allowed module
  whose import fails does so with \<^verbatim>\<open>ImportError\<close> (any other exception leaves the
  method); and in the environment it returns, the names a unit can resolve are exactly
  the 33 enumerated built-ins, the two fixed entries \<^verbatim>\<open>__builtins__\<close> and
  \<^verbatim>\<open>__name__\<close>, and the allowed modules whose import returned. Nothing else of the
  host is reachable by name, and a module whose import raised is not bound.
\<close>

theorem create_safe_globals_capabilities:
  assumes "''__builtins__'' \<notin> set (ALLOWED_MODULES h)"
  shows "((\<exists>g. fst (create_safe_globals h) = Returns g) \<longleftrightarrow>
            (\<forall>m\<in>set (ALLOWED_MODULES h).
               (\<forall>e. import_module h m = Raises e \<longrightarrow> is_ImportError e) \<and>
               (\<forall>k. import_module h m \<noteq> Exits k)))
       \<and> (\<forall>g x. fst (create_safe_globals h) = Returns g \<longrightarrow>
             ((\<exists>v. load_name g Map.empty x = Returns v) \<longleftrightarrow>
                x \<in> set safe_builtin_names \<or> x = ''__builtins__'' \<or> x = ''__name__'' \<or>
                (x \<in> set (ALLOWED_MODULES h) \<and> (\<exists>obj. import_module h x = Returns obj))))"
proof (intro conjI allI impI)
  show "(\<exists>g. fst (create_safe_globals h) = Returns g) \<longleftrightarrow>
            (\<forall>m\<in>set (ALLOWED_MODULES h).
               (\<forall>e. import_module h m = Raises e \<longrightarrow> is_ImportError e) \<and>
               (\<forall>k. import_module h m \<noteq> Exits k))"
    unfolding create_safe_globals_Returns
    using import_allowed_returns_iff[of "import_module h" "ALLOWED_MODULES h" Map.empty "[]"]
    by blast
next
  fix g x
  assume "fst (create_safe_globals h) = Returns g"
  with assms show "(\<exists>v. load_name g Map.empty x = Returns v) \<longleftrightarrow>
                x \<in> set safe_builtin_names \<or> x = ''__builtins__'' \<or> x = ''__name__'' \<or>
                (x \<in> set (ALLOWED_MODULES h) \<and> (\<exists>obj. import_module h x = Returns obj))"
    by (rule resolvable_names)
qed

theorem create_safe_globals_capabilities_witness:
  "''__builtins__'' \<notin> set (ALLOWED_MODULES demo_host)
   \<and> (\<exists>g. fst (create_safe_globals demo_host) = Returns g
         \<and> (\<exists>v. load_name g Map.empty ''print'' = Returns v)
         \<and> (\<exists>v. load_name g Map.empty ''math'' = Returns v)
         \<and> \<not> (\<exists>v. load_name g Map.empty ''numpy'' = Returns v)
         \<and> \<not> (\<exists>v. load_name g Map.empty ''open'' = Returns v))"
proof -
  have h: "''__builtins__'' \<notin> set (ALLOWED_MODULES demo_host)"
    by (simp add: demo_host_def)
  note T = create_safe_globals_capabilities[OF h]
  have "\<forall>m\<in>set (ALLOWED_MODULES demo_host).
          (\<forall>e. import_module demo_host m = Raises e \<longrightarrow> is_ImportError e) \<and>
          (\<forall>k. import_module demo_host m \<noteq> Exits k)"
    by (simp add: demo_host_def demo_import_def module_not_found_def is_ImportError_def)
  with T obtain g where g: "fst (create_safe_globals demo_host) = Returns g"
    by blast
  with T have r: "(\<exists>v. load_name g Map.empty x = Returns v) \<longleftrightarrow>
      x \<in> set safe_builtin_names \<or> x = ''__builtins__'' \<or> x = ''__name__'' \<or>
      (x \<in> set (ALLOWED_MODULES demo_host) \<and> (\<exists>obj. import_module demo_host x = Returns obj))"
    for x by blast
  have "\<exists>v. load_name g Map.empty ''print'' = Returns v"
    unfolding r by (simp add: safe_builtin_names_def)
  moreover have "\<exists>v. load_name g Map.empty ''math'' = Returns v"
    unfolding r by (simp add: demo_host_def demo_import_def)
  moreover have "\<not> (\<exists>v. load_name g Map.empty ''numpy'' = Returns v)"
    unfolding r by (simp add: safe_builtin_names_def demo_host_def demo_import_def)
  moreover have "\<not> (\<exists>v. load_name g Map.empty ''open'' = Returns v)"
    unfolding r by (simp add: safe_builtin_names_def demo_host_def)
  ultimately show ?thesis using h g by blast
qed

text \<open>
  C1 as stated fails twice. \<^verbatim>\<open>__name__\<close> resolves in the environment although it is
  neither an enumerated built-in nor an allowed module; and an allowed module whose
  import raises \<^verbatim>\<open>SyntaxError\<close> is not left out: the exception leaves
  \<^verbatim>\<open>_create_safe_globals\<close> and no environment exists.
\<close>

theorem create_safe_globals_counterexample:
  "(case fst (create_safe_globals demo_host) of
      Returns g \<Rightarrow> load_name g Map.empty ''__name__'' = Returns (Str ''__main__'')
    | _ \<Rightarrow> False)
   \<and> ''__name__'' \<notin> set safe_builtin_names
   \<and> ''__name__'' \<notin> set (ALLOWED_MODULES demo_host)
   \<and> ''plugin'' \<in> set (ALLOWED_MODULES plugin_host)
   \<and> import_module plugin_host ''plugin'' = Raises syntax_error
   \<and> fst (create_safe_globals plugin_host) = Raises syntax_error"
proof -
  have a: "(case fst (create_safe_globals demo_host) of
      Returns g \<Rightarrow> load_name g Map.empty ''__name__'' = Returns (Str ''__main__'')
    | _ \<Rightarrow> False)"
    by (simp add: demo_globals load_name_def)
  have b: "''__name__'' \<notin> set safe_builtin_names"
    by (simp add: safe_builtin_names_def)
  have c: "''__name__'' \<notin> set (ALLOWED_MODULES demo_host)"
    by (simp add: demo_host_def)
  have d: "''plugin'' \<in> set (ALLOWED_MODULES plugin_host)"
    "import_module plugin_host ''plugin'' = Raises syntax_error"
    by (simp_all add: plugin_host_def)
  show ?thesis using a b c d plugin_globals by blast
qed

subsection \<open>The concrete host, evaluated\<close>

lemma demo_compiles:
  "compile_restricted demo_host ''print(42)'' = Returns (CodeObj (Bytecode 0))"
  "compile_restricted demo_host ''1/0'' = Returns (CodeObj (Bytecode 7))"
  "compile_restricted demo_host ''while True: pass'' = Returns (CodeObj (Bytecode 2))"
  "compile_restricted demo_host ''x = 1'' = Returns (CodeObj (Bytecode 3))"
  "compile_restricted demo_host ''print(x)'' = Returns (CodeObj (Bytecode 4))"
  "compile_restricted demo_host ''warn()'' = Returns (CodeObj (Bytecode 5))"
  "compile_restricted demo_host ''wait()'' = Returns (CodeObj (Bytecode 6))"
  "compile_restricted demo_host ''def'' = Raises syntax_error"
  "compile_restricted demo_host ''exec(1)'' =
     Returns (WithErrors [''Line 1: Exec calls are not allowed.'', ''Line 1: bad name''])"
  "compile_restricted demo_host ''?'' = Returns NoneObj"
  "compile_restricted demo_host ''absorb()'' = Returns (CodeObj (Bytecode 8))"
  "compile_restricted demo_host ''cling()'' = Returns (CodeObj (Bytecode 9))"
  by (simp_all add: demo_host_def demo_compile_def)

lemmas demo_unit_defs = exec_unit_def demo_host_def demo_behaviour_def at_once_def endless_def
  exceeds_def

lemma demo_runs:
  "exec_unit demo_host (Bytecode 0) g l t = Some (Returns (''42'' @ [CHR 0x0A], []))"
  "exec_unit demo_host (Bytecode 7) g l t = Some (Raises zero_division)"
  "exec_unit demo_host (Bytecode 2) g l 10 = Some (Raises timeout_handler)"
  "exec_unit demo_host (Bytecode 2) g l 0 = None"
  "exec_unit demo_host (Bytecode 3) g l t = Some (Returns ([], []))"
  "exec_unit demo_host (Bytecode 5) g l t = Some (Returns (''partial'', ''deprecated''))"
  "exec_unit demo_host (Bytecode 6) g l t = Some (Exits ''KeyboardInterrupt'')"
  "exec_unit demo_host (Bytecode 8) g l 10 = Some (Returns ([], []))"
  "exec_unit demo_host (Bytecode 9) g l 10 = None"
  by (simp_all add: demo_unit_defs)


lemma demo_env: "fst (create_safe_globals demo_host) = Returns demo_env"
  by (simp add: demo_globals demo_env_def)

lemma idle_facts: "main_thread idle" "sigalrm idle \<noteq> NotFromPython"
  by (simp_all add: idle_def)

lemma foreign_facts: "main_thread foreign" "sigalrm foreign = NotFromPython"
  by (simp_all add: foreign_def)

lemma default_timeout: "timeout default_executor = 10" "timeout default_executor < 2 ^ 31"
  "0 < timeout default_executor"
  by (simp_all add: default_executor_def)

lemma str_nat_10: "str_nat 10 = ''10''"
  by code_simp

lemmas demo_idle = demo_globals idle_facts(1) default_timeout(2) idle_facts(2)


lemma demo_results:
  "map_option fst (execute demo_host default_executor ''print(42)'' idle) =
     Some (Returns \<lparr>success = True, output_text = ''42'' @ [CHR 0x0A], error = []\<rparr>)"
  "map_option fst (execute demo_host default_executor ''warn()'' idle) =
     Some (Returns \<lparr>success = False, output_text = [], error = ''deprecated''\<rparr>)"
  "map_option fst (execute demo_host default_executor ''1/0'' idle) =
     Some (Returns \<lparr>success = False, output_text = [],
                     error = ''ZeroDivisionError: division by zero''\<rparr>)"
  "map_option fst (execute demo_host default_executor ''wait()'' idle) =
     Some (Exits ''KeyboardInterrupt'')"
  "map_option fst (execute demo_host default_executor ''cling()'' idle) = None"
  "map_option fst (execute demo_host default_executor ''absorb()'' idle) =
     Some (Returns \<lparr>success = True, output_text = [], error = []\<rparr>)"
  "map_option fst (execute demo_host default_executor ''while True: pass'' idle) =
     Some (Returns \<lparr>success = False, output_text = [],
                     error = ''Code execution timed out after 10 seconds''\<rparr>)"
  by (simp_all add: res_run[OF demo_compiles(1) demo_idle]
      res_run[OF demo_compiles(6) demo_idle]
      res_run[OF demo_compiles(2) demo_idle]
      res_run[OF demo_compiles(7) demo_idle]
      res_run[OF demo_compiles(12) demo_idle]
      res_run[OF demo_compiles(11) demo_idle]
      res_run[OF demo_compiles(3) demo_idle]
      default_timeout(1) demo_runs zero_division_def is_TimeoutError_def timeout_handler_def
      str_nat_10)


subsection \<open>Invariants of the result record\<close>

lemma output_invariant:
  assumes "map_option fst (execute h ex src s) = Some (Returns r)"
  shows "\<not> success r \<longrightarrow> output_text r = []"
proof (cases rule: path_cases[where h=h and src=src and s=s and ex=ex])
  case (Run c g)
  from assms show ?thesis
    unfolding res_run[OF Run]
    by (auto split: option.splits outcome.splits prod.splits if_splits)
next
  case (RunForeign c g)
  from assms show ?thesis
    unfolding res_run_foreign[OF RunForeign]
    by (auto split: option.splits outcome.splits prod.splits if_splits)
qed (use assms in \<open>auto simp: res_no_run\<close>)

lemma error_invariant:
  assumes "map_option fst (execute h ex src s) = Some (Returns r)"
    and "sigalrm s \<noteq> NotFromPython"
  shows "success r \<longrightarrow> error r = []"
proof (cases rule: path_cases[where h=h and src=src and s=s and ex=ex])
  case (Run c g)
  from assms(1) show ?thesis
    unfolding res_run[OF Run]
    by (auto split: option.splits outcome.splits prod.splits if_splits)
next
  case (RunForeign c g)
  with assms(2) show ?thesis by simp
qed (use assms in \<open>auto simp: res_no_run\<close>)

text \<open>
  C10. Whenever \<^verbatim>\<open>execute\<close> returns a result record, \<^verbatim>\<open>success == False\<close>
  implies that the output field is the empty string. In particular, when the run
  returns with text on stderr, the captured stdout is not returned.
\<close>

theorem execute_failure_output_empty:
  assumes "map_option fst (execute h ex src s) = Some (Returns r)" and "\<not> success r"
  shows "output_text r = []"
  using output_invariant[OF assms(1)] assms(2) by simp

theorem execute_failure_output_empty_witness:
  "exec_unit demo_host (Bytecode 5) Map.empty Map.empty 10 = Some (Returns (''partial'', ''deprecated''))
   \<and> map_option fst (execute demo_host default_executor ''warn()'' idle) =
     Some (Returns \<lparr>success = False, output_text = [], error = ''deprecated''\<rparr>)
   \<and> \<not> success \<lparr>success = False, output_text = [], error = ''deprecated''\<rparr>
   \<and> output_text \<lparr>success = False, output_text = [], error = ''deprecated''\<rparr> = []"
  using execute_failure_output_empty[OF demo_results(2)] demo_results(2) demo_runs(6) by simp


subsection \<open>The decision rule\<close>


subsection \<open>What leaves \<^verbatim>\<open>execute\<close>\<close>

lemma never_raises: "map_option fst (execute h ex src s) \<noteq> Some (Raises e)"
proof (cases rule: path_cases[where h=h and src=src and s=s and ex=ex])
  case (Run c g)
  show ?thesis
    unfolding res_run[OF Run]
    by (simp split: option.splits outcome.splits prod.splits)
next
  case (RunForeign c g)
  show ?thesis
    unfolding res_run_foreign[OF RunForeign]
    by (simp split: option.splits outcome.splits prod.splits)
qed (simp_all add: res_no_run)

lemma exits_iff:
  "map_option fst (execute h ex src s) = Some (Exits k) \<longleftrightarrow>
     compile_restricted h src = Exits k \<or>
     (\<exists>c. compile_restricted h src = Returns (CodeObj c) \<and>
        (fst (create_safe_globals h) = Exits k \<or>
         (\<exists>g. fst (create_safe_globals h) = Returns g \<and> main_thread s \<and>
            timeout ex < 2 ^ 31 \<and> sigalrm s \<noteq> NotFromPython \<and>
            exec_unit h c g Map.empty (timeout ex) = Some (Exits k))))"
proof (cases rule: path_cases[where h=h and src=src and s=s and ex=ex])
  case (Run c g)
  show ?thesis
    unfolding res_run[OF Run] using Run
    by (auto split: option.splits outcome.splits prod.splits if_splits)
next
  case (RunForeign c g)
  show ?thesis
    unfolding res_run_foreign[OF RunForeign] using RunForeign
    by (auto split: option.splits outcome.splits prod.splits if_splits)
qed (auto simp: res_no_run)

lemma hangs_iff:
  "execute h ex src s = None \<longleftrightarrow>
     (\<exists>c g. compile_restricted h src = Returns (CodeObj c) \<and>
        fst (create_safe_globals h) = Returns g \<and> main_thread s \<and> timeout ex < 2 ^ 31 \<and>
        exec_unit h c g Map.empty (timeout ex) = None)"
proof -
  have "map_option fst (execute h ex src s) = None \<longleftrightarrow>
     (\<exists>c g. compile_restricted h src = Returns (CodeObj c) \<and>
        fst (create_safe_globals h) = Returns g \<and> main_thread s \<and> timeout ex < 2 ^ 31 \<and>
        exec_unit h c g Map.empty (timeout ex) = None)"
  proof (cases rule: path_cases[where h=h and src=src and s=s and ex=ex])
    case (Run c g)
    show ?thesis
      unfolding res_run[OF Run] using Run
      by (auto split: option.splits outcome.splits prod.splits if_splits)
  next
    case (RunForeign c g)
    show ?thesis
      unfolding res_run_foreign[OF RunForeign] using RunForeign
      by (auto split: option.splits outcome.splits prod.splits if_splits)
  qed (auto simp: res_no_run)
  then show ?thesis by simp
qed

lemma fault_becomes_failure:
  assumes "compile_restricted h src = Raises e \<or>
     (\<exists>c. compile_restricted h src = Returns (CodeObj c) \<and>
        (fst (create_safe_globals h) = Raises e \<or>
         (\<exists>g. fst (create_safe_globals h) = Returns g \<and>
            (\<not> main_thread s \<or> \<not> timeout ex < 2 ^ 31 \<or>
             exec_unit h c g Map.empty (timeout ex) = Some (Raises e)))))"
  shows "\<exists>r. map_option fst (execute h ex src s) = Some (Returns r) \<and> \<not> success r \<and> error r \<noteq> []"
proof (cases rule: path_cases[where h=h and src=src and s=s and ex=ex])
  case (Run c g)
  with assms have "exec_unit h c g Map.empty (timeout ex) = Some (Raises e)"
    by auto
  then show ?thesis
    unfolding res_run[OF Run] by simp
next
  case (RunForeign c g)
  with assms have "exec_unit h c g Map.empty (timeout ex) = Some (Raises e)"
    by auto
  then show ?thesis
    unfolding res_run_foreign[OF RunForeign] by simp
qed (use assms in \<open>auto simp: res_no_run\<close>)

lemma teardown_fault_becomes_record:
  assumes "compile_restricted h src = Returns (CodeObj c)"
    and "fst (create_safe_globals h) = Returns g"
    and "main_thread s" and "timeout ex < 2 ^ 31" and "sigalrm s = NotFromPython"
    and "exec_unit h c g Map.empty (timeout ex) \<noteq> None"
  shows "\<exists>r. map_option fst (execute h ex src s) = Some (Returns r) \<and>
           error r = ''Compilation error: '' @ exc_str handler_rejected"
  using assms(6) unfolding res_run_foreign[OF assms(1-5)]
  by (auto split: option.splits outcome.splits prod.splits)

text \<open>
  C3 (as amended). No instance of \<^verbatim>\<open>Exception\<close> ever leaves \<^verbatim>\<open>execute\<close>,
  wherever it is raised: by the compiler, while the environment is built, by the two
  calls that install the deadline, by the run or by the teardown. \<^verbatim>\<open>execute\<close>
  returns a result record in all cases but two, which are characterised exactly: a
  system-exiting exception leaves it when the compiler or the construction of the
  environment raises one, or when the run raises one and the teardown succeeds; and
  it never returns when the run never gives control back. A fault raised before or
  during the run becomes a record with \<^verbatim>\<open>success == False\<close> and a non-empty error
  text; a fault raised by the teardown becomes a record whose error text is
  \<^verbatim>\<open>Compilation error: \<close> followed by its message.
\<close>

theorem execute_converts_faults:
  "(\<forall>e. map_option fst (execute h ex src s) \<noteq> Some (Raises e))
   \<and> (\<forall>k. map_option fst (execute h ex src s) = Some (Exits k) \<longleftrightarrow>
          compile_restricted h src = Exits k \<or>
          (\<exists>c. compile_restricted h src = Returns (CodeObj c) \<and>
             (fst (create_safe_globals h) = Exits k \<or>
              (\<exists>g. fst (create_safe_globals h) = Returns g \<and> main_thread s \<and>
                 timeout ex < 2 ^ 31 \<and> sigalrm s \<noteq> NotFromPython \<and>
                 exec_unit h c g Map.empty (timeout ex) = Some (Exits k)))))
   \<and> (execute h ex src s = None \<longleftrightarrow>
          (\<exists>c g. compile_restricted h src = Returns (CodeObj c) \<and>
             fst (create_safe_globals h) = Returns g \<and> main_thread s \<and> timeout ex < 2 ^ 31 \<and>
             exec_unit h c g Map.empty (timeout ex) = None))
   \<and> (\<forall>e. compile_restricted h src = Raises e \<or>
          (\<exists>c. compile_restricted h src = Returns (CodeObj c) \<and>
             (fst (create_safe_globals h) = Raises e \<or>
              (\<exists>g. fst (create_safe_globals h) = Returns g \<and>
                 (\<not> main_thread s \<or> \<not> timeout ex < 2 ^ 31 \<or>
                  exec_unit h c g Map.empty (timeout ex) = Some (Raises e)))))
        \<longrightarrow> (\<exists>r. map_option fst (execute h ex src s) = Some (Returns r)
                  \<and> \<not> success r \<and> error r \<noteq> []))
   \<and> ((\<exists>c g. compile_restricted h src = Returns (CodeObj c) \<and>
          fst (create_safe_globals h) = Returns g \<and> main_thread s \<and> timeout ex < 2 ^ 31 \<and>
          sigalrm s = NotFromPython \<and> exec_unit h c g Map.empty (timeout ex) \<noteq> None)
        \<longrightarrow> (\<exists>r. map_option fst (execute h ex src s) = Some (Returns r)
                  \<and> error r = ''Compilation error: '' @ exc_str handler_rejected))"
proof (intro conjI allI impI)
  fix e
  show "map_option fst (execute h ex src s) \<noteq> Some (Raises e)"
    by (rule never_raises)
next
  fix k
  show "map_option fst (execute h ex src s) = Some (Exits k) \<longleftrightarrow>
          compile_restricted h src = Exits k \<or>
          (\<exists>c. compile_restricted h src = Returns (CodeObj c) \<and>
             (fst (create_safe_globals h) = Exits k \<or>
              (\<exists>g. fst (create_safe_globals h) = Returns g \<and> main_thread s \<and>
                 timeout ex < 2 ^ 31 \<and> sigalrm s \<noteq> NotFromPython \<and>
                 exec_unit h c g Map.empty (timeout ex) = Some (Exits k))))"
    by (rule exits_iff)
next
  show "execute h ex src s = None \<longleftrightarrow>
          (\<exists>c g. compile_restricted h src = Returns (CodeObj c) \<and>
             fst (create_safe_globals h) = Returns g \<and> main_thread s \<and> timeout ex < 2 ^ 31 \<and>
             exec_unit h c g Map.empty (timeout ex) = None)"
    by (rule hangs_iff)
next
  fix e
  assume "compile_restricted h src = Raises e \<or>
          (\<exists>c. compile_restricted h src = Returns (CodeObj c) \<and>
             (fst (create_safe_globals h) = Raises e \<or>
              (\<exists>g. fst (create_safe_globals h) = Returns g \<and>
                 (\<not> main_thread s \<or> \<not> timeout ex < 2 ^ 31 \<or>
                  exec_unit h c g Map.empty (timeout ex) = Some (Raises e)))))"
  then show "\<exists>r. map_option fst (execute h ex src s) = Some (Returns r)
                  \<and> \<not> success r \<and> error r \<noteq> []"
    by (rule fault_becomes_failure)
next
  assume "\<exists>c g. compile_restricted h src = Returns (CodeObj c) \<and>
          fst (create_safe_globals h) = Returns g \<and> main_thread s \<and> timeout ex < 2 ^ 31 \<and>
          sigalrm s = NotFromPython \<and> exec_unit h c g Map.empty (timeout ex) \<noteq> None"
  then show "\<exists>r. map_option fst (execute h ex src s) = Some (Returns r)
                  \<and> error r = ''Compilation error: '' @ exc_str handler_rejected"
    using teardown_fault_becomes_record by blast
qed

theorem execute_converts_faults_witness:
  "compile_restricted demo_host ''1/0'' = Returns (CodeObj (Bytecode 7))
   \<and> fst (create_safe_globals demo_host) = Returns demo_env
   \<and> exec_unit demo_host (Bytecode 7) demo_env Map.empty (timeout default_executor)
       = Some (Raises zero_division)
   \<and> (\<exists>r. map_option fst (execute demo_host default_executor ''1/0'' idle) = Some (Returns r)
         \<and> \<not> success r \<and> error r \<noteq> [])
   \<and> compile_restricted demo_host ''print(42)'' = Returns (CodeObj (Bytecode 0))
   \<and> main_thread foreign \<and> timeout default_executor < 2 ^ 31 \<and> sigalrm foreign = NotFromPython
   \<and> exec_unit demo_host (Bytecode 0) demo_env Map.empty (timeout default_executor) \<noteq> None
   \<and> (\<exists>r. map_option fst (execute demo_host default_executor ''print(42)'' foreign)
           = Some (Returns r)
         \<and> error r = ''Compilation error: '' @ exc_str handler_rejected)"
proof -
  have run: "exec_unit demo_host (Bytecode 7) demo_env Map.empty (timeout default_executor)
               = Some (Raises zero_division)"
    by (rule demo_runs)
  have "\<exists>r. map_option fst (execute demo_host default_executor ''1/0'' idle) = Some (Returns r)
         \<and> \<not> success r \<and> error r \<noteq> []"
    using execute_converts_faults[of demo_host default_executor "''1/0''" idle]
      demo_compiles(2) demo_env run
    by blast
  moreover have ran: "exec_unit demo_host (Bytecode 0) demo_env Map.empty (timeout default_executor)
                        \<noteq> None"
    by (simp add: demo_runs)
  moreover have "\<exists>r. map_option fst (execute demo_host default_executor ''print(42)'' foreign)
           = Some (Returns r)
         \<and> error r = ''Compilation error: '' @ exc_str handler_rejected"
    using execute_converts_faults[of demo_host default_executor "''print(42)''" foreign]
      demo_compiles(1) demo_env foreign_facts default_timeout(2) ran
    by blast
  ultimately show ?thesis
    using demo_compiles(1,2) demo_env run foreign_facts default_timeout(2) by blast
qed

text \<open>
  C3 as stated fails: a \<^verbatim>\<open>KeyboardInterrupt\<close> raised while the unit runs is not an
  instance of \<^verbatim>\<open>Exception\<close>, passes both \<^verbatim>\<open>except\<close> clauses and leaves
  \<^verbatim>\<open>execute\<close>; and a unit that catches the exception of the handler and loops on
  never gives control back, so \<^verbatim>\<open>execute\<close> returns nothing.
\<close>

theorem execute_converts_faults_counterexample:
  "map_option fst (execute demo_host default_executor ''wait()'' idle) =
     Some (Exits ''KeyboardInterrupt'')
   \<and> execute demo_host default_executor ''cling()'' idle = None"
  using demo_results(4,5) by simp

subsection \<open>The timeout\<close>




subsection \<open>The process after a call\<close>

lemma state_not_compiled:
  assumes "\<forall>c. compile_restricted h src \<noteq> Returns (CodeObj c)"
    and "execute h ex src s = Some (oc, s')"
  shows "s' = s\<lparr>trace := trace s @ [EvCompile]\<rparr>"
proof (cases "compile_restricted h src")
  case (Returns x)
  with assms show ?thesis
    by (cases x) (auto simp: exec_defs)
next
  case (Raises e)
  with assms(2) show ?thesis by (auto simp: exec_defs)
next
  case (Exits k)
  with assms(2) show ?thesis by (auto simp: exec_defs)
qed

lemma state_not_installed:
  assumes "compile_restricted h src = Returns (CodeObj c)"
    and "(\<forall>g. fst (create_safe_globals h) \<noteq> Returns g) \<or> \<not> main_thread s"
    and "execute h ex src s = Some (oc, s')"
  shows "trace s' = trace s @ [EvCompile, EvBuildEnv] \<and> alarm s' = alarm s \<and>
         sigalrm s' = sigalrm s \<and> main_thread s' = main_thread s"
proof -
  obtain built log where cg: "create_safe_globals h = (built, log)"
    by (cases "create_safe_globals h")
  show ?thesis
  proof (cases built)
    case (Returns g)
    with cg assms(2) have "\<not> main_thread s" by auto
    with assms(1,3) cg Returns show ?thesis
      by (auto simp: exec_defs)
  next
    case (Raises e)
    with assms(1,3) cg show ?thesis by (auto simp: exec_defs)
  next
    case (Exits k)
    with assms(1,3) cg show ?thesis by (auto simp: exec_defs)
  qed
qed

lemma state_overflow:
  assumes "compile_restricted h src = Returns (CodeObj c)"
    and "fst (create_safe_globals h) = Returns g"
    and "main_thread s" and "\<not> timeout ex < 2 ^ 31"
    and "execute h ex src s = Some (oc, s')"
  shows "trace s' = trace s @ [EvCompile, EvBuildEnv, EvSignal TimeoutHandler] \<and>
         alarm s' = alarm s \<and> sigalrm s' = TimeoutHandler \<and> main_thread s' = main_thread s"
proof -
  obtain log where cg: "create_safe_globals h = (Returns g, log)"
    using assms(2) by (cases "create_safe_globals h") simp
  with assms(1,3,4,5) show ?thesis
    by (auto simp: exec_defs)
qed

lemma state_run:
  assumes "compile_restricted h src = Returns (CodeObj c)"
    and "fst (create_safe_globals h) = Returns g"
    and "main_thread s" and "timeout ex < 2 ^ 31" and "sigalrm s \<noteq> NotFromPython"
    and "execute h ex src s = Some (oc, s')"
  shows "trace s' = trace s @ [EvCompile, EvBuildEnv, EvSignal TimeoutHandler,
                                EvAlarm (timeout ex), EvExec, EvAlarm 0, EvSignal (sigalrm s)]
         \<and> alarm s' = 0 \<and> sigalrm s' = sigalrm s \<and> main_thread s' = main_thread s"
proof -
  obtain log where cg: "create_safe_globals h = (Returns g, log)"
    using assms(2) by (cases "create_safe_globals h") simp
  show ?thesis
  proof (cases "exec_unit h c g Map.empty (timeout ex)")
    case None
    with assms(1,3,4,5,6) cg show ?thesis by (simp add: exec_defs)
  next
    case (Some ran)
    with assms(1,3,4,5,6) cg show ?thesis
      by (cases ran) (auto simp: exec_defs split: if_splits prod.splits)
  qed
qed

lemma state_run_foreign:
  assumes "compile_restricted h src = Returns (CodeObj c)"
    and "fst (create_safe_globals h) = Returns g"
    and "main_thread s" and "timeout ex < 2 ^ 31" and "sigalrm s = NotFromPython"
    and "execute h ex src s = Some (oc, s')"
  shows "trace s' = trace s @ [EvCompile, EvBuildEnv, EvSignal TimeoutHandler,
                                EvAlarm (timeout ex), EvExec, EvAlarm 0]
         \<and> alarm s' = 0 \<and> sigalrm s' = TimeoutHandler \<and> main_thread s' = main_thread s"
proof -
  obtain log where cg: "create_safe_globals h = (Returns g, log)"
    using assms(2) by (cases "create_safe_globals h") simp
  show ?thesis
  proof (cases "exec_unit h c g Map.empty (timeout ex)")
    case None
    with assms(1,3,4,5,6) cg show ?thesis by (simp add: exec_defs)
  next
    case (Some ran)
    with assms(1,3,4,5,6) cg show ?thesis
      by (cases ran) (auto simp: exec_defs split: if_splits prod.splits)
  qed
qed

subsection \<open>The deadline timer\<close>

text \<open>
  C5. Whenever \<^verbatim>\<open>execute\<close> gives control back, by returning a record or by letting a
  system-exiting exception through, one of two things has happened. Either the unit was
  run: then \<^verbatim>\<open>signal.alarm(timeout)\<close> is the call directly before \<^verbatim>\<open>exec\<close>,
  \<^verbatim>\<open>signal.alarm(0)\<close> is the call directly after it, whatever the run did and
  whether or not the previous handler could then be put back, and no alarm is pending
  at the end. Or the unit was not run: then no call of this invocation has set an
  alarm, and the alarm is as it was before.
\<close>

theorem execute_timer:
  assumes "execute h ex src s = Some (oc, s')"
  shows "((trace s' = trace s @ [EvCompile, EvBuildEnv, EvSignal TimeoutHandler,
                                  EvAlarm (timeout ex), EvExec, EvAlarm 0, EvSignal (sigalrm s)]
           \<or> trace s' = trace s @ [EvCompile, EvBuildEnv, EvSignal TimeoutHandler,
                                    EvAlarm (timeout ex), EvExec, EvAlarm 0])
          \<and> alarm s' = 0)
       \<or> ((trace s' = trace s @ [EvCompile]
           \<or> trace s' = trace s @ [EvCompile, EvBuildEnv]
           \<or> trace s' = trace s @ [EvCompile, EvBuildEnv, EvSignal TimeoutHandler])
          \<and> alarm s' = alarm s)"
proof (cases rule: path_cases[where h=h and src=src and s=s and ex=ex])
  case (EnvExits c k)
  then have "(\<forall>g. fst (create_safe_globals h) \<noteq> Returns g) \<or> \<not> main_thread s" by simp
  from state_not_installed[OF EnvExits(1) this assms] show ?thesis by simp
next
  case (EnvRaises c e)
  then have "(\<forall>g. fst (create_safe_globals h) \<noteq> Returns g) \<or> \<not> main_thread s" by simp
  from state_not_installed[OF EnvRaises(1) this assms] show ?thesis by simp
next
  case (OffMain c g)
  then have "(\<forall>g. fst (create_safe_globals h) \<noteq> Returns g) \<or> \<not> main_thread s" by simp
  from state_not_installed[OF OffMain(1) this assms] show ?thesis by simp
next
  case (Overflow c g)
  from state_overflow[OF Overflow assms] show ?thesis by simp
next
  case (Run c g)
  from state_run[OF Run assms] show ?thesis by simp
next
  case (RunForeign c g)
  from state_run_foreign[OF RunForeign assms] show ?thesis by simp
qed (use state_not_compiled[OF _ assms] in auto)

lemma demo_timeout_run:
  "execute demo_host default_executor ''while True: pass'' idle =
     Some (Returns \<lparr>success = False, output_text = [],
                     error = ''Code execution timed out after 10 seconds''\<rparr>,
           \<lparr>alarm = 0, sigalrm = SIG_DFL, main_thread = True,
            trace = [EvCompile, EvBuildEnv, EvSignal TimeoutHandler, EvAlarm 10, EvExec,
                     EvAlarm 0, EvSignal SIG_DFL],
            warnings = [''Module numpy not available'']\<rparr>)"
  by (simp add: exec_defs demo_unit_defs demo_compile_def demo_import_def
      create_safe_globals_def module_not_found_def is_ImportError_def is_TimeoutError_def
      timeout_handler_def default_executor_def idle_def str_nat_10)

theorem execute_timer_witness:
  "execute demo_host default_executor ''while True: pass'' idle =
     Some (Returns \<lparr>success = False, output_text = [],
                     error = ''Code execution timed out after 10 seconds''\<rparr>,
           \<lparr>alarm = 0, sigalrm = SIG_DFL, main_thread = True,
            trace = [EvCompile, EvBuildEnv, EvSignal TimeoutHandler, EvAlarm 10, EvExec,
                     EvAlarm 0, EvSignal SIG_DFL],
            warnings = [''Module numpy not available'']\<rparr>)
   \<and> trace idle = [] \<and> timeout default_executor = 10 \<and> sigalrm idle = SIG_DFL"
  using execute_timer[OF demo_timeout_run] demo_timeout_run
  by (simp add: idle_def default_executor_def)

subsection \<open>Sources that do not compile\<close>

text \<open>
  C6 (as amended). When compilation fails, \<^verbatim>\<open>execute\<close> returns at once with
  \<^verbatim>\<open>success == False\<close> and an empty output; the only call it has made is the one to
  the compiler, so no environment was built and no alarm was set. The error text
  depends on how the compiler failed: the messages of the \<^verbatim>\<open>errors\<close> attribute
  joined by newlines when the compiler returns an object that has one; the fixed text
  \<^verbatim>\<open>Code compilation failed - invalid or restricted syntax\<close> when it returns
  \<^verbatim>\<open>None\<close>; and \<^verbatim>\<open>Compilation error: \<close> followed by the message of the exception
  when it raises one.
\<close>

theorem execute_compile_failure:
  "(\<forall>es. compile_restricted h src = Returns (WithErrors es) \<longrightarrow>
      execute h ex src s =
        Some (Returns \<lparr>success = False, output_text = [], error = join_lines es\<rparr>,
              s\<lparr>trace := trace s @ [EvCompile]\<rparr>))
   \<and> (compile_restricted h src = Returns NoneObj \<longrightarrow>
      execute h ex src s =
        Some (Returns \<lparr>success = False, output_text = [],
                error = ''Code compilation failed - invalid or restricted syntax''\<rparr>,
              s\<lparr>trace := trace s @ [EvCompile]\<rparr>))
   \<and> (\<forall>e. compile_restricted h src = Raises e \<longrightarrow>
      execute h ex src s =
        Some (Returns \<lparr>success = False, output_text = [],
                error = ''Compilation error: '' @ exc_str e\<rparr>,
              s\<lparr>trace := trace s @ [EvCompile]\<rparr>))"
  by (simp add: exec_defs)

theorem execute_compile_failure_witness:
  "compile_restricted demo_host ''exec(1)'' =
     Returns (WithErrors [''Line 1: Exec calls are not allowed.'', ''Line 1: bad name''])
   \<and> execute demo_host default_executor ''exec(1)'' idle =
       Some (Returns \<lparr>success = False, output_text = [],
               error = ''Line 1: Exec calls are not allowed.'' @ [CHR 0x0A] @ ''Line 1: bad name''\<rparr>,
             idle\<lparr>trace := [EvCompile]\<rparr>)
   \<and> compile_restricted demo_host ''?'' = Returns NoneObj
   \<and> execute demo_host default_executor ''?'' idle =
       Some (Returns \<lparr>success = False, output_text = [],
               error = ''Code compilation failed - invalid or restricted syntax''\<rparr>,
             idle\<lparr>trace := [EvCompile]\<rparr>)
   \<and> compile_restricted demo_host ''def'' = Raises syntax_error
   \<and> execute demo_host default_executor ''def'' idle =
       Some (Returns \<lparr>success = False, output_text = [],
               error = ''Compilation error: invalid syntax''\<rparr>,
             idle\<lparr>trace := [EvCompile]\<rparr>)"
  using execute_compile_failure[of demo_host "''exec(1)''" default_executor idle]
    execute_compile_failure[of demo_host "''?''" default_executor idle]
    execute_compile_failure[of demo_host "''def''" default_executor idle]
  by (simp add: demo_compiles idle_def syntax_error_def)

text \<open>
  C6 as stated fails on two of the three ways in which compilation fails. When the
  compiler raises, its message is not the error text verbatim: it is prefixed. When the
  compiler returns \<^verbatim>\<open>None\<close>, the error text is a fixed sentence and no message of the
  compiler at all.
\<close>

theorem execute_compile_failure_counterexample:
  "compile_restricted demo_host ''def'' = Raises syntax_error
   \<and> map_option fst (execute demo_host default_executor ''def'' idle) =
       Some (Returns \<lparr>success = False, output_text = [],
               error = ''Compilation error: invalid syntax''\<rparr>)
   \<and> ''Compilation error: invalid syntax'' \<noteq> join_lines [exc_str syntax_error]
   \<and> compile_restricted demo_host ''?'' = Returns NoneObj
   \<and> map_option fst (execute demo_host default_executor ''?'' idle) =
       Some (Returns \<lparr>success = False, output_text = [],
               error = ''Code compilation failed - invalid or restricted syntax''\<rparr>)"
  by (simp add: demo_compiles res_compile_raises res_compile_none syntax_error_def)

subsection \<open>Independence of the calls\<close>

text \<open>
  What one call leaves to the next is the process. The local scope is not among it:
  the unit is only ever started in the empty local scope, so what a unit would do in
  any other local scope has no influence on \<^verbatim>\<open>execute\<close>.
\<close>

lemma create_safe_globals_cong:
  assumes "ALLOWED_MODULES h' = ALLOWED_MODULES h" "import_module h' = import_module h"
  shows "create_safe_globals h' = create_safe_globals h"
  by (simp add: create_safe_globals_def assms)

lemma empty_scope_only:
  assumes "compile_restricted h' = compile_restricted h"
    and "ALLOWED_MODULES h' = ALLOWED_MODULES h"
    and "import_module h' = import_module h"
    and "\<forall>c g. unit_behaviour h' c g Map.empty = unit_behaviour h c g Map.empty"
  shows "execute h' ex src s = execute h ex src s"
proof -
  have "exec_unit h' c g Map.empty t = exec_unit h c g Map.empty t" for c g t
    by (simp add: exec_unit_def assms(4))
  then have rg: "run_guarded h' ex c g Map.empty old r0 t = run_guarded h ex c g Map.empty old r0 t"
    for c g old r0 t
    by (simp add: run_guarded_def)
  show ?thesis
    unfolding execute_def execute_body_def rg assms(1) create_safe_globals_cong[OF assms(2,3)]
    by (rule refl)
qed

text \<open>A unit that reads a name outside the capability environment before binding it
  fails with \<^verbatim>\<open>NameError\<close>, when the previous handler can be put back.\<close>

lemma unbound_name_fails:
  assumes c: "compile_restricted h src = Returns (CodeObj c)"
    and g: "fst (create_safe_globals h) = Returns g"
    and m: "main_thread s" and t: "timeout ex < 2 ^ 31" and r: "sigalrm s \<noteq> NotFromPython"
    and nb: "''__builtins__'' \<notin> set (ALLOWED_MODULES h)"
    and x: "x \<notin> set safe_builtin_names" "x \<noteq> ''__builtins__''" "x \<noteq> ''__name__''"
      "x \<notin> set (ALLOWED_MODULES h)"
    and reads: "\<forall>l. load_name g l x = Raises (name_error x) \<longrightarrow>
                  exec_unit h c g l (timeout ex) = Some (Raises (name_error x))"
  shows "map_option fst (execute h ex src s) =
           Some (Returns \<lparr>success = False, output_text = [],
                   error = ''NameError: name '' @ [CHR 0x27] @ x @ [CHR 0x27] @ '' is not defined''\<rparr>)"
proof -
  have "\<not> (\<exists>v. load_name g Map.empty x = Returns v)"
    unfolding resolvable_names[OF nb g] using x by simp
  then have "load_name g Map.empty x = Raises (name_error x)"
    by (rule unresolved_name)
  with reads have "exec_unit h c g Map.empty (timeout ex) = Some (Raises (name_error x))"
    by blast
  then show ?thesis
    by (simp add: res_run[OF c g m t r] name_error_def is_TimeoutError_def)
qed


subsection \<open>Two more runs of the concrete host\<close>

lemma demo_overflow_run:
  "execute demo_host huge_executor ''print(42)'' idle =
     Some (Returns \<lparr>success = False, output_text = [],
                     error = ''Compilation error: Python int too large to convert to C int''\<rparr>,
           \<lparr>alarm = 0, sigalrm = TimeoutHandler, main_thread = True,
            trace = [EvCompile, EvBuildEnv, EvSignal TimeoutHandler],
            warnings = [''Module numpy not available'']\<rparr>)"
  by (simp add: exec_defs demo_host_def demo_compile_def demo_import_def
      create_safe_globals_def module_not_found_def is_ImportError_def
      alarm_overflow_def huge_executor_def idle_def)

lemma demo_scope:
  "execute leaky_host default_executor ''print(x)'' idle =
     execute demo_host default_executor ''print(x)'' idle"
  by (rule empty_scope_only) (simp_all add: leaky_host_def demo_host_def)

end
